theory Spec2Isabelle
  imports Complex_Main "HOL-Library.Multiset"
begin

section \<open>Data model\<close>

text \<open>
  The statistics functions of \<^verbatim>\<open>app.py\<close> read two tables. A calendar date is
  modelled by its proleptic Gregorian day number (what Python's \<^verbatim>\<open>date.toordinal\<close>
  returns): the stored text \<^verbatim>\<open>YYYY-MM-DD\<close> is assumed canonical, so that
  \<^verbatim>\<open>strptime\<close> succeeds on it and the text order of SQLite agrees with the
  order of the day numbers. Day numbers are unbounded integers; the range of years
  1..9999 of Python's \<^verbatim>\<open>date\<close> is not modelled. The reference date, which the
  source reads from the clock, is the parameter \<open>today\<close>.

  Only the columns that the statistics read are kept: \<^verbatim>\<open>habits.id\<close>,
  \<^verbatim>\<open>habits.active\<close>, and of \<^verbatim>\<open>records\<close> the habit id, the date, the
  integer flag \<^verbatim>\<open>completed\<close> and the notes.
\<close>

type_synonym date = int

record habit_row =
  h_id :: int
  h_active :: int

record record_row =
  r_habit_id :: int
  r_date :: date
  r_completed :: int
  r_notes :: "string option"

record database =
  habits :: "habit_row list"
  records :: "record_row list"


datatype py_error = ZeroDivisionError | IndexError

record streak =
  current :: nat
  best :: nat

section \<open>Streaks\<close>

text \<open>
  The query of \<^verbatim>\<open>calculate_streak\<close>:
  \<^verbatim>\<open>SELECT date, completed FROM records WHERE habit_id = ? AND completed = 1 ORDER BY date DESC\<close>.
  Every selected row has \<^verbatim>\<open>completed = 1\<close>, so the rows are determined by their
  dates, and the order among equal dates is immaterial.
\<close>

definition completed_rows :: "database \<Rightarrow> int \<Rightarrow> record_row list" where
  "completed_rows db habit_id =
     filter (\<lambda>r. r_habit_id r = habit_id \<and> r_completed r = 1) (records db)"

definition streak_query :: "database \<Rightarrow> int \<Rightarrow> date list" where
  "streak_query db habit_id = rev (sort (map r_date (completed_rows db habit_id)))"

text \<open>
  The first loop: \<^verbatim>\<open>expected_date = today - timedelta(days=current_streak)\<close>, then
  \<^verbatim>\<open>current_streak += 1\<close> on a match and \<^verbatim>\<open>break\<close> otherwise.
\<close>

fun current_loop :: "date \<Rightarrow> nat \<Rightarrow> date list \<Rightarrow> nat" where
  "current_loop today current_streak [] = current_streak"
| "current_loop today current_streak (record_date # rest) =
     (let expected_date = today - int current_streak
      in if record_date = expected_date
         then current_loop today (current_streak + 1) rest
         else current_streak)"

text \<open>
  The second loop, over the state \<open>(prev_date, temp_streak, best_streak)\<close>;
  \<open>prev_date\<close> starts as \<^verbatim>\<open>None\<close>. The branch that resets \<open>temp_streak\<close>
  leaves \<open>best_streak\<close> alone, as the source does.
\<close>

fun best_loop :: "date option \<Rightarrow> nat \<Rightarrow> nat \<Rightarrow> date list \<Rightarrow> nat" where
  "best_loop prev_date temp_streak best_streak [] = best_streak"
| "best_loop prev_date temp_streak best_streak (record_date # rest) =
     (if prev_date = None \<or> the prev_date - record_date = 1
      then best_loop (Some record_date) (temp_streak + 1)
             (max best_streak (temp_streak + 1)) rest
      else best_loop (Some record_date) 1 best_streak rest)"

definition calculate_streak :: "database \<Rightarrow> int \<Rightarrow> date \<Rightarrow> streak" where
  "calculate_streak db habit_id today =
     (let rows = streak_query db habit_id
      in if rows = [] then \<lparr>current = 0, best = 0\<rparr>
         else let current_streak = current_loop today 0 rows;
                  best_streak = best_loop None 0 0 rows
              in \<lparr>current = current_streak, best = max best_streak current_streak\<rparr>)"

section \<open>Python numbers\<close>

text \<open>
  A Python \<^verbatim>\<open>float\<close> is an IEEE 754 binary64 number. It is modelled by the
  rational number it denotes, and every float operation rounds its exact result to
  the nearest number with a 53 bit significand, ties to the even significand. The
  exponent is left unbounded, and neither infinities nor the sign of zero are
  modelled: the quotients below have a row count as numerator, far inside the normal
  range of binary64.
\<close>

datatype pynum = PyInt int | PyFloat rat

function ilog2 :: "int \<Rightarrow> int" where
  "ilog2 n = (if n < 2 then 0 else 1 + ilog2 (n div 2))"
  by pat_completeness auto
termination
  by (relation "measure nat") auto

declare ilog2.simps [simp del]

definition round_half_even :: "rat \<Rightarrow> int" where
  "round_half_even q =
     (let f = \<lfloor>q\<rfloor>; r = q - of_int f
      in if r < 1 / 2 then f
         else if 1 / 2 < r then f + 1
         else if even f then f else f + 1)"

definition pow2 :: "int \<Rightarrow> rat" where
  "pow2 e = (if 0 \<le> e then 2 ^ nat e else 1 / 2 ^ nat (- e))"

text \<open>
  The nearest binary64 number: with \<open>2 ^ p \<le> \<bar>q\<bar> < 2 ^ (p + 1)\<close> the significand
  is \<open>\<bar>q\<bar> / 2 ^ (p - 52)\<close>, rounded to an integer.
\<close>

definition float_of_rat :: "rat \<Rightarrow> rat" where
  "float_of_rat q =
     (if q = 0 then 0
      else let a = \<bar>q\<bar>;
               p0 = ilog2 (fst (quotient_of a)) - ilog2 (snd (quotient_of a));
               p = (if pow2 p0 \<le> a then p0 else p0 - 1);
               e = p - 52;
               m = round_half_even (a / pow2 e)
           in sgn q * of_int m * pow2 e)"

text \<open>
  \<^verbatim>\<open>a / b\<close> on two Python integers: the correctly rounded quotient, and
  \<^verbatim>\<open>ZeroDivisionError\<close> when \<open>b\<close> is zero.
\<close>

definition py_truediv :: "int \<Rightarrow> int \<Rightarrow> py_error + rat" where
  "py_truediv a b =
     (if b = 0 then Inl ZeroDivisionError else Inr (float_of_rat (of_int a / of_int b)))"

definition float_mul :: "rat \<Rightarrow> rat \<Rightarrow> rat" where
  "float_mul x y = float_of_rat (x * y)"

text \<open>
  \<^verbatim>\<open>round(x, 1)\<close> on a float: the exact value of \<open>x\<close> is rounded to one decimal,
  ties to even, and the decimal is converted back to the nearest float.
\<close>

definition py_round1 :: "rat \<Rightarrow> rat" where
  "py_round1 x = float_of_rat (of_int (round_half_even (x * 10)) / 10)"

definition then_py :: "py_error + 'a \<Rightarrow> ('a \<Rightarrow> py_error + 'b) \<Rightarrow> py_error + 'b" where
  "then_py r f = (case r of Inl e \<Rightarrow> Inl e | Inr v \<Rightarrow> f v)"

section \<open>Completion rate\<close>

text \<open>
  \<^verbatim>\<open>SELECT COUNT(*) FROM records WHERE habit_id = ? AND date >= ? AND completed = 1\<close>.
  The query has no upper bound on the date.
\<close>

definition completion_count_query :: "database \<Rightarrow> int \<Rightarrow> date \<Rightarrow> nat" where
  "completion_count_query db habit_id start_date =
     length (filter (\<lambda>r. r_habit_id r = habit_id \<and> start_date \<le> r_date r \<and> r_completed r = 1)
               (records db))"

definition get_completion_rate :: "database \<Rightarrow> int \<Rightarrow> int \<Rightarrow> date \<Rightarrow> py_error + rat" where
  "get_completion_rate db habit_id days today =
     (let start_date = today - days;
          completed = completion_count_query db habit_id start_date
      in then_py (py_truediv (int completed) days)
           (\<lambda>q. Inr (py_round1 (float_mul q 100))))"

section \<open>Best weekday\<close>










section \<open>Overview\<close>

record overview =
  total_habits :: int
  completed_today :: int
  completion_rate_today :: pynum
  average_streak :: pynum
  total_completions :: int

definition active_habit_ids :: "database \<Rightarrow> int list" where
  "active_habit_ids db = map h_id (filter (\<lambda>h. h_active h = 1) (habits db))"

text \<open>\<^verbatim>\<open>SELECT COUNT(DISTINCT habit_id) FROM records WHERE date = ? AND completed = 1\<close>.\<close>

definition completed_today_query :: "database \<Rightarrow> date \<Rightarrow> int" where
  "completed_today_query db today =
     int (length (remdups (map r_habit_id
            (filter (\<lambda>r. r_date r = today \<and> r_completed r = 1) (records db)))))"

definition get_overview_stats :: "database \<Rightarrow> date \<Rightarrow> py_error + overview" where
  "get_overview_stats db today =
     (let total_habits = int (length (filter (\<lambda>h. h_active h = 1) (habits db)));
          completed_today = completed_today_query db today;
          habit_ids = active_habit_ids db;
          total_streak =
            fold (\<lambda>hid total_streak. total_streak + int (current (calculate_streak db hid today)))
              habit_ids 0
      in then_py
           (if habit_ids \<noteq> []
            then then_py (py_truediv total_streak (int (length habit_ids)))
                   (\<lambda>q. Inr (PyFloat (py_round1 q)))
            else Inr (PyInt 0))
           (\<lambda>avg_streak.
              let total_completions =
                    int (length (filter (\<lambda>r. r_completed r = 1) (records db)))
              in then_py
                   (if 0 < total_habits
                    then then_py (py_truediv completed_today total_habits)
                           (\<lambda>q. Inr (PyFloat (py_round1 (float_mul q 100))))
                    else Inr (PyInt 0))
                   (\<lambda>rate.
                      Inr \<lparr>total_habits = total_habits, completed_today = completed_today,
                           completion_rate_today = rate, average_streak = avg_streak,
                           total_completions = total_completions\<rparr>)))"

section \<open>The algorithms as the specification words them\<close>




section \<open>Calendar dates and example data\<close>

text \<open>The day number of a calendar date, as Python's \<^verbatim>\<open>date.toordinal\<close> computes it.\<close>

definition is_leap :: "int \<Rightarrow> bool" where
  "is_leap year = (year mod 4 = 0 \<and> (year mod 100 \<noteq> 0 \<or> year mod 400 = 0))"

definition days_before_year :: "int \<Rightarrow> int" where
  "days_before_year year =
     (let y = year - 1 in y * 365 + y div 4 - y div 100 + y div 400)"

definition days_in_month :: "int \<Rightarrow> nat \<Rightarrow> int" where
  "days_in_month year month =
     (if month = 2 then (if is_leap year then 29 else 28)
      else if month \<in> {4, 6, 9, 11} then 30 else 31)"

definition days_before_month :: "int \<Rightarrow> nat \<Rightarrow> int" where
  "days_before_month year month = sum_list (map (days_in_month year) [1..<month])"

definition ymd :: "int \<Rightarrow> nat \<Rightarrow> int \<Rightarrow> date" where
  "ymd year month day = days_before_year year + days_before_month year month + day"

definition done_on :: "int \<Rightarrow> date \<Rightarrow> record_row" where
  "done_on habit_id d =
     \<lparr>r_habit_id = habit_id, r_date = d, r_completed = 1, r_notes = None\<rparr>"

text \<open>
  A database with the single active habit 1, completed on the given days of January
  2024, in the order of insertion; and the database with no rows at all.
\<close>

definition january_db :: "int list \<Rightarrow> database" where
  "january_db days =
     \<lparr>habits = [\<lparr>h_id = 1, h_active = 1\<rparr>],
      records = map (\<lambda>day. done_on 1 (ymd 2024 1 day)) days\<rparr>"

definition empty_db :: database where
  "empty_db = \<lparr>habits = [], records = []\<rparr>"

section \<open>The two loops of the streak computation\<close>










section \<open>The query of the streak computation\<close>







section \<open>Properties of the streak computation\<close>





text \<open>
  Claim C3. For every database, habit id and reference date, the pair returned by
  \<open>calculate_streak\<close> has \<open>best\<close> at least \<open>current\<close>: the last step takes the
  maximum of the two.
\<close>

theorem calculate_streak_best_ge_current:
  "current (calculate_streak db habit_id today) \<le> best (calculate_streak db habit_id today)"
  by (simp add: calculate_streak_def Let_def)



section \<open>Properties of the completion rate\<close>




lemma get_completion_rate_nonzero:
  "days \<noteq> 0 \<Longrightarrow>
   get_completion_rate db habit_id days today =
     Inr (py_round1 (float_mul
       (float_of_rat (of_nat (completion_count_query db habit_id (today - days)) / of_int days))
       100))"
  by (simp add: get_completion_rate_def Let_def then_py_def py_truediv_def)




text \<open>
  Claim C5 says that the rate lies between 0 and 100. The window of the query starts
  at \<open>today - days\<close> and has no end, so it holds \<open>days + 1\<close> dates up to today. A habit
  completed on each of the 31 days of January 2024 has, on 2024-01-31 and with the
  window of 30 days, the rate 103.3; a habit completed yesterday and today has, with
  the window of one day, the rate 200.0.
\<close>

theorem get_completion_rate_above_100:
  "get_completion_rate (january_db [1..31]) 1 30 (ymd 2024 1 31) =
     Inr (float_of_rat (1033 / 10)) \<and>
   100 < float_of_rat (1033 / 10) \<and>
   get_completion_rate (january_db [4, 5]) 1 1 (ymd 2024 1 5) = Inr 200"
proof (intro conjI)
  have count: "completion_count_query (january_db [1..31]) 1 (ymd 2024 1 31 - 30) = 31"
    by code_simp
  have rate: "py_round1 (float_mul (float_of_rat (of_nat 31 / of_int 30)) 100) =
              float_of_rat (1033 / 10)"
    by code_simp
  have "get_completion_rate (january_db [1..31]) 1 30 (ymd 2024 1 31) =
        Inr (py_round1 (float_mul (float_of_rat (of_nat (completion_count_query
          (january_db [1..31]) 1 (ymd 2024 1 31 - 30)) / of_int 30)) 100))"
    by (rule get_completion_rate_nonzero) simp
  then show "get_completion_rate (january_db [1..31]) 1 30 (ymd 2024 1 31) =
             Inr (float_of_rat (1033 / 10))"
    by (simp only: count rate)
next
  show "100 < float_of_rat (1033 / 10)"
    by code_simp
next
  have count: "completion_count_query (january_db [4, 5]) 1 (ymd 2024 1 5 - 1) = 2"
    by code_simp
  have rate: "py_round1 (float_mul (float_of_rat (of_nat 2 / of_int 1)) 100) = 200"
    by code_simp
  have "get_completion_rate (january_db [4, 5]) 1 1 (ymd 2024 1 5) =
        Inr (py_round1 (float_mul (float_of_rat (of_nat (completion_count_query
          (january_db [4, 5]) 1 (ymd 2024 1 5 - 1)) / of_int 1)) 100))"
    by (rule get_completion_rate_nonzero) simp
  then show "get_completion_rate (january_db [4, 5]) 1 1 (ymd 2024 1 5) = Inr 200"
    by (simp only: count rate)
qed

text \<open>
  Claim C6 says that a window of zero days is guarded and yields 0. The division
  \<^verbatim>\<open>completed / days\<close> is not guarded: with \<open>days = 0\<close> the function raises
  \<^verbatim>\<open>ZeroDivisionError\<close>, for every database, habit and date.
\<close>

theorem get_completion_rate_zero_window:
  "get_completion_rate db habit_id 0 today = Inl ZeroDivisionError"
  by (simp add: get_completion_rate_def Let_def then_py_def py_truediv_def)

section \<open>Properties of the best weekday\<close>












section \<open>Habits without completed records\<close>



section \<open>Properties of the overview\<close>

text \<open>
  Claim C7. \<open>get_overview_stats\<close> never raises. With at least one active habit, its
  \<open>completion_rate_today\<close> is \<^verbatim>\<open>round(completed_today / total_habits * 100, 1)\<close>;
  with no active habit it is the integer 0, and so is \<open>average_streak\<close>.
\<close>

theorem get_overview_stats_guards:
  "\<exists>ov. get_overview_stats db today = Inr ov \<and>
     total_habits ov = int (length (active_habit_ids db)) \<and>
     completed_today ov = completed_today_query db today \<and>
     (0 < total_habits ov \<longrightarrow>
        completion_rate_today ov =
          PyFloat (py_round1 (float_mul
            (float_of_rat (of_int (completed_today ov) / of_int (total_habits ov))) 100))) \<and>
     (total_habits ov = 0 \<longrightarrow> completion_rate_today ov = PyInt 0) \<and>
     (active_habit_ids db = [] \<longrightarrow> average_streak ov = PyInt 0)"
proof (cases "active_habit_ids db = []")
  case True
  then show ?thesis
    by (simp add: get_overview_stats_def Let_def then_py_def active_habit_ids_def)
next
  case False
  then have "0 < length (filter (\<lambda>h. h_active h = 1) (habits db))"
    by (simp add: active_habit_ids_def)
  then show ?thesis
    using False
    by (simp add: get_overview_stats_def Let_def then_py_def py_truediv_def active_habit_ids_def)
qed

theorem get_overview_stats_guards_witness:
  "(\<exists>ov. get_overview_stats (january_db [1, 2, 3, 5]) (ymd 2024 1 5) = Inr ov \<and>
      0 < total_habits ov \<and> completion_rate_today ov = PyFloat 100) \<and>
   (\<exists>ov. get_overview_stats empty_db (ymd 2024 1 5) = Inr ov \<and>
      total_habits ov = 0 \<and> active_habit_ids empty_db = [] \<and>
      completion_rate_today ov = PyInt 0 \<and> average_streak ov = PyInt 0)"
proof (intro conjI)
  have active: "active_habit_ids (january_db [1, 2, 3, 5]) = [1]"
    by code_simp
  have done_today: "completed_today_query (january_db [1, 2, 3, 5]) (ymd 2024 1 5) = 1"
    by code_simp
  have rate: "py_round1 (float_mul (float_of_rat (of_int 1 / of_int 1)) 100) = 100"
    by code_simp
  from get_overview_stats_guards [of "january_db [1, 2, 3, 5]" "ymd 2024 1 5"]
  obtain ov where result: "get_overview_stats (january_db [1, 2, 3, 5]) (ymd 2024 1 5) = Inr ov"
    and total: "total_habits ov = int (length (active_habit_ids (january_db [1, 2, 3, 5])))"
    and completed: "completed_today ov =
                    completed_today_query (january_db [1, 2, 3, 5]) (ymd 2024 1 5)"
    and guarded: "0 < total_habits ov \<longrightarrow>
        completion_rate_today ov =
          PyFloat (py_round1 (float_mul
            (float_of_rat (of_int (completed_today ov) / of_int (total_habits ov))) 100))"
    by blast
  have one: "total_habits ov = 1"
    using total by (simp add: active)
  then have positive: "0 < total_habits ov"
    by simp
  with guarded have "completion_rate_today ov =
          PyFloat (py_round1 (float_mul
            (float_of_rat (of_int (completed_today ov) / of_int (total_habits ov))) 100))"
    by blast
  then have "completion_rate_today ov = PyFloat 100"
    by (simp only: completed one done_today rate)
  with result positive
  show "\<exists>ov. get_overview_stats (january_db [1, 2, 3, 5]) (ymd 2024 1 5) = Inr ov \<and>
      0 < total_habits ov \<and> completion_rate_today ov = PyFloat 100"
    by blast
next
  have inactive: "active_habit_ids empty_db = []"
    by code_simp
  from get_overview_stats_guards [of empty_db "ymd 2024 1 5"]
  show "\<exists>ov. get_overview_stats empty_db (ymd 2024 1 5) = Inr ov \<and>
      total_habits ov = 0 \<and> active_habit_ids empty_db = [] \<and>
      completion_rate_today ov = PyInt 0 \<and> average_streak ov = PyInt 0"
    by (auto simp: inactive)
qed

end
